theory Spec2Isabelle
  imports Complex_Main
begin

section \<open>Numbers\<close>

text \<open>
  The calculation module works on ECMAScript numbers.  A number is modelled as a finite
  value, one of the two infinities, or NaN.  Finite values are carried as reals and every
  operation on them is exact: the rounding of binary64 arithmetic, overflow to an infinity
  and the sign of zero are not modelled (a zero is always the positive zero; the two
  divisors of the module, a square and a sum of unlike terms, are never the negative zero).
  What is modelled is the part of the arithmetic the module's control flow depends on:
  NaN propagation, the infinities, division by zero, comparisons that are false on NaN and
  the truthiness of a number.
\<close>

datatype number = Fin real | PInf | NInf | NaN

fun neg :: "number \<Rightarrow> number" where
  "neg (Fin x) = Fin (- x)"
| "neg PInf = NInf"
| "neg NInf = PInf"
| "neg NaN = NaN"

fun add :: "number \<Rightarrow> number \<Rightarrow> number" where
  "add NaN b = NaN"
| "add (Fin x) NaN = NaN"
| "add PInf NaN = NaN"
| "add NInf NaN = NaN"
| "add (Fin x) (Fin y) = Fin (x + y)"
| "add (Fin x) PInf = PInf"
| "add (Fin x) NInf = NInf"
| "add PInf (Fin y) = PInf"
| "add PInf PInf = PInf"
| "add PInf NInf = NaN"
| "add NInf (Fin y) = NInf"
| "add NInf NInf = NInf"
| "add NInf PInf = NaN"

fun mul :: "number \<Rightarrow> number \<Rightarrow> number" where
  "mul NaN b = NaN"
| "mul (Fin x) NaN = NaN"
| "mul PInf NaN = NaN"
| "mul NInf NaN = NaN"
| "mul (Fin x) (Fin y) = Fin (x * y)"
| "mul (Fin x) PInf = (if x = 0 then NaN else if 0 < x then PInf else NInf)"
| "mul (Fin x) NInf = (if x = 0 then NaN else if 0 < x then NInf else PInf)"
| "mul PInf (Fin y) = (if y = 0 then NaN else if 0 < y then PInf else NInf)"
| "mul NInf (Fin y) = (if y = 0 then NaN else if 0 < y then NInf else PInf)"
| "mul PInf PInf = PInf"
| "mul PInf NInf = NInf"
| "mul NInf PInf = NInf"
| "mul NInf NInf = PInf"

fun quot :: "number \<Rightarrow> number \<Rightarrow> number" where
  "quot NaN b = NaN"
| "quot (Fin x) NaN = NaN"
| "quot PInf NaN = NaN"
| "quot NInf NaN = NaN"
| "quot (Fin x) (Fin y) =
     (if y \<noteq> 0 then Fin (x / y)
      else if x = 0 then NaN else if 0 < x then PInf else NInf)"
| "quot (Fin x) PInf = Fin 0"
| "quot (Fin x) NInf = Fin 0"
| "quot PInf (Fin y) = (if 0 \<le> y then PInf else NInf)"
| "quot NInf (Fin y) = (if 0 \<le> y then NInf else PInf)"
| "quot PInf PInf = NaN"
| "quot PInf NInf = NaN"
| "quot NInf PInf = NaN"
| "quot NInf NInf = NaN"

instantiation number :: "{plus, minus, times, inverse}"
begin

definition plus_number :: "number \<Rightarrow> number \<Rightarrow> number" where
  "plus_number a b = add a b"

definition minus_number :: "number \<Rightarrow> number \<Rightarrow> number" where
  "minus_number a b = add a (neg b)"

definition times_number :: "number \<Rightarrow> number \<Rightarrow> number" where
  "times_number a b = mul a b"

definition divide_number :: "number \<Rightarrow> number \<Rightarrow> number" where
  "divide_number a b = quot a b"

definition inverse_number :: "number \<Rightarrow> number" where
  "inverse_number a = quot (Fin 1) a"

instance ..

end

text \<open>\<open>a < b\<close> of the source; \<open>a > b\<close> is \<open>lt b a\<close>.  False as soon as one side is NaN.\<close>

fun lt :: "number \<Rightarrow> number \<Rightarrow> bool" where
  "lt NaN b = False"
| "lt (Fin x) NaN = False"
| "lt PInf NaN = False"
| "lt NInf NaN = False"
| "lt (Fin x) (Fin y) = (x < y)"
| "lt (Fin x) PInf = True"
| "lt (Fin x) NInf = False"
| "lt PInf b = False"
| "lt NInf (Fin y) = True"
| "lt NInf PInf = True"
| "lt NInf NInf = False"

definition gt :: "number \<Rightarrow> number \<Rightarrow> bool" where
  "gt a b = lt b a"

text \<open>\<open>a <= b\<close> of the source: false on NaN, otherwise \<open>a < b\<close> or \<open>a = b\<close>.\<close>

definition le :: "number \<Rightarrow> number \<Rightarrow> bool" where
  "le a b = (a \<noteq> NaN \<and> b \<noteq> NaN \<and> (lt a b \<or> a = b))"

text \<open>\<open>Math.min\<close> and \<open>Math.max\<close> of two arguments: NaN as soon as one argument is.\<close>

definition Math_min :: "number \<Rightarrow> number \<Rightarrow> number" where
  "Math_min a b = (if a = NaN \<or> b = NaN then NaN else if lt b a then b else a)"

definition Math_max :: "number \<Rightarrow> number \<Rightarrow> number" where
  "Math_max a b = (if a = NaN \<or> b = NaN then NaN else if lt a b then b else a)"

text \<open>\<open>Math.round\<close>: the nearest integer, a tie going up.\<close>

fun Math_round :: "number \<Rightarrow> number" where
  "Math_round (Fin x) = Fin (of_int \<lfloor>x + 1 / 2\<rfloor>)"
| "Math_round PInf = PInf"
| "Math_round NInf = NInf"
| "Math_round NaN = NaN"

text \<open>\<open>Math.log10\<close>.\<close>

fun Math_log10 :: "number \<Rightarrow> number" where
  "Math_log10 (Fin x) = (if x < 0 then NaN else if x = 0 then NInf else Fin (log 10 x))"
| "Math_log10 PInf = PInf"
| "Math_log10 NInf = NaN"
| "Math_log10 NaN = NaN"

text \<open>
  \<open>parseFloat(x.toFixed(1))\<close>.  \<open>toFixed(1)\<close> prints NaN and the infinities by name and
  a value of magnitude at least \<open>10^21\<close> in the exponent notation of \<open>String\<close>; all of
  these are read back by \<open>parseFloat\<close> as the number printed.  Any other value is printed
  as \<open>n / 10\<close> for the integer \<open>n\<close> nearest to ten times its magnitude, the larger one at a
  tie, with the sign in front.
\<close>

fun parseFloat_toFixed1 :: "number \<Rightarrow> number" where
  "parseFloat_toFixed1 (Fin x) =
     (if 10 ^ 21 \<le> \<bar>x\<bar> then Fin x
      else Fin (sgn x * of_int \<lfloor>\<bar>x\<bar> * 10 + 1 / 2\<rfloor> / 10))"
| "parseFloat_toFixed1 PInf = PInf"
| "parseFloat_toFixed1 NInf = NInf"
| "parseFloat_toFixed1 NaN = NaN"

text \<open>
  An optional field holds a number or is absent (\<open>undefined\<close>).  In a condition an absent
  field, zero and NaN are falsy; in arithmetic and comparisons an absent field is NaN.
\<close>

fun truthy :: "number option \<Rightarrow> bool" where
  "truthy None = False"
| "truthy (Some (Fin x)) = (x \<noteq> 0)"
| "truthy (Some PInf) = True"
| "truthy (Some NInf) = True"
| "truthy (Some NaN) = False"

fun toNumber :: "number option \<Rightarrow> number" where
  "toNumber None = NaN"
| "toNumber (Some x) = x"

section \<open>Data model\<close>

datatype Gender = Male | Female

datatype Goal = Maintenance | Bulking | Cutting

datatype Focus = Strength | Hypertrophy

record UserData =
  age :: number
  gender :: Gender
  height :: number
  weight :: number
  trainingDays :: number
  goal :: Goal
  focus :: Focus
  neck :: "number option"
  waist :: "number option"
  hip :: "number option"

record TargetCalories =
  maintenance :: number
  bulking :: number
  cutting :: number

record FitnessResults =
  bmi :: number
  bodyFatPercentage :: number
  bodyFatMethod :: string
  bmr :: number
  tdee :: number
  targetCalories :: TargetCalories

section \<open>Metrics calculator\<close>

text \<open>
  \<open>calculateFitnessMetrics\<close>, one definition for each local variable of the source, in
  the order of the source.

  The quotient of \<open>calc_bmi\<close> and the sums of \<open>calc_bodyFat\<close> are taken in exact
  arithmetic, where the source rounds every operation to binary64 and takes its
  logarithm from the platform.  The two can differ in the last decimal of \<open>bmi\<close> and
  \<open>bodyFatPercentage\<close>: for a height of 160 cm and a weight of 48 kg the source has
  \<open>1.6 * 1.6 = 2.5600000000000005\<close> and a BMI of 18.7, exact arithmetic has 18.75 and
  a BMI of 18.8.  The properties proved of these two fields are therefore the branch
  taken and the range of the result, never their decimals.
\<close>

definition calc_bmi :: "UserData \<Rightarrow> number" where
  "calc_bmi data =
     (let heightM = height data / Fin 100
      in parseFloat_toFixed1 (weight data / (heightM * heightM)))"

definition useNavy :: "UserData \<Rightarrow> bool" where
  "useNavy data =
     (truthy (neck data) \<and> truthy (waist data) \<and>
      (gender data = Male \<or> (gender data = Female \<and> truthy (hip data))))"

definition navyIsValid :: "UserData \<Rightarrow> bool" where
  "navyIsValid data =
     (if useNavy data then
        (if gender data = Male
         then gt (toNumber (waist data)) (toNumber (neck data))
         else gt (toNumber (waist data) + toNumber (hip data)) (toNumber (neck data)))
      else False)"

definition calc_bodyFat :: "UserData \<Rightarrow> number \<times> string" where
  "calc_bodyFat data =
     (if useNavy data \<and> navyIsValid data then
        (if gender data = Male then
           (Fin 495 / (Fin 1.0324
               - Fin 0.19077 * Math_log10 (toNumber (waist data) - toNumber (neck data))
               + Fin 0.15456 * Math_log10 (height data)) - Fin 450,
            ''navy'')
         else
           (Fin 495 / (Fin 1.29579
               - Fin 0.35004 * Math_log10
                   (toNumber (waist data) + toNumber (hip data) - toNumber (neck data))
               + Fin 0.22100 * Math_log10 (height data)) - Fin 450,
            ''navy''))
      else
        (let isMale = (if gender data = Male then Fin 1 else Fin 0)
         in ((Fin 1.20 * calc_bmi data) + (Fin 0.23 * age data) - (Fin 10.8 * isMale) - Fin 5.4,
             ''deurenberg'')))"

definition calc_bmr :: "UserData \<Rightarrow> number" where
  "calc_bmr data =
     Math_round
       (if gender data = Male
        then (Fin 10 * weight data) + (Fin 6.25 * height data) - (Fin 5 * age data) + Fin 5
        else (Fin 10 * weight data) + (Fin 6.25 * height data) - (Fin 5 * age data) - Fin 161)"

definition calc_pal :: "UserData \<Rightarrow> number" where
  "calc_pal data =
     (if le (trainingDays data) (Fin 1) then Fin 1.40
      else if le (trainingDays data) (Fin 3) then Fin 1.55
      else if le (trainingDays data) (Fin 5) then Fin 1.70
      else Fin 1.85)"

definition calculateFitnessMetrics :: "UserData \<Rightarrow> FitnessResults" where
  "calculateFitnessMetrics data =
     (let tdee_v = Math_round (calc_bmr data * calc_pal data);
          maintenance_v = tdee_v;
          cutting_v = tdee_v - Math_round (tdee_v * Fin 0.15);
          bulking_v = tdee_v + Math_round (tdee_v * Fin 0.10)
      in \<lparr> bmi = calc_bmi data,
           bodyFatPercentage =
             parseFloat_toFixed1
               (Math_max (Fin 5) (Math_min (Fin 50) (fst (calc_bodyFat data)))),
           bodyFatMethod = snd (calc_bodyFat data),
           bmr = calc_bmr data,
           tdee = tdee_v,
           targetCalories =
             \<lparr> maintenance = maintenance_v, bulking = bulking_v, cutting = cutting_v \<rparr> \<rparr>)"

section \<open>Method normalizer\<close>

text \<open>
  A string is a list of code units; only code units below 256 are carried (the Latin-1
  range).  The argument of \<open>normalizeMethodKey\<close> is optional, for the callers that pass
  \<open>undefined\<close>.  The calls of \<open>console.warn\<close> are returned beside the result, in order.
\<close>

datatype warning = EmptyMethod | UnknownMethodKey string

text \<open>White space and line terminators, as \<open>String.prototype.trim\<close> strips them.\<close>

definition isWhiteSpace :: "char \<Rightarrow> bool" where
  "isWhiteSpace c = (of_char c \<in> {9, 10, 11, 12, 13, 32, 160 :: nat})"

definition trim :: "string \<Rightarrow> string" where
  "trim s = rev (dropWhile isWhiteSpace (rev (dropWhile isWhiteSpace s)))"

text \<open>The upper-case letters below 256 are A to Z and the accented capitals but the
  multiplication sign; each is 32 below its lower-case letter.\<close>

definition toLowerCase_char :: "char \<Rightarrow> char" where
  "toLowerCase_char c =
     (let n = of_char c :: nat
      in if (65 \<le> n \<and> n \<le> 90) \<or> (192 \<le> n \<and> n \<le> 214) \<or> (216 \<le> n \<and> n \<le> 222)
         then char_of (n + 32) else c)"

definition toLowerCase :: "string \<Rightarrow> string" where
  "toLowerCase s = map toLowerCase_char s"

definition navyAliases :: "string list" where
  "navyAliases = [''navy'', ''us_navy'', ''us-navy'', ''u.s. navy'', ''usnavy'']"

definition deurenbergAliases :: "string list" where
  "deurenbergAliases = [''deurenberg'', ''deurenberg1991'', ''d1991'']"

definition normalizeMethodKey :: "string option \<Rightarrow> string \<times> warning list" where
  "normalizeMethodKey method =
     (case method of
        None \<Rightarrow> (''deurenberg'', [EmptyMethod])
      | Some m \<Rightarrow>
          if m = [] then (''deurenberg'', [EmptyMethod])
          else
            (let key = toLowerCase (trim m)
             in if key \<in> set navyAliases then (''navy'', [])
                else if key \<in> set deurenbergAliases then (''deurenberg'', [])
                else (''deurenberg'', [UnknownMethodKey m])))"

section \<open>Definitions used to state the properties\<close>





text \<open>Profiles used as concrete inputs.\<close>

definition example_male_navy :: UserData where
  "example_male_navy =
     \<lparr> age = Fin 30, gender = Male, height = Fin 175, weight = Fin 75, trainingDays = Fin 3,
       goal = Maintenance, focus = Strength,
       neck = Some (Fin 38), waist = Some (Fin 85), hip = None \<rparr>"

definition example_female_navy :: UserData where
  "example_female_navy =
     \<lparr> age = Fin 28, gender = Female, height = Fin 165, weight = Fin 60, trainingDays = Fin 4,
       goal = Cutting, focus = Hypertrophy,
       neck = Some (Fin 32), waist = Some (Fin 70), hip = Some (Fin 95) \<rparr>"

definition example_female_plain :: UserData where
  "example_female_plain =
     \<lparr> age = Fin 28, gender = Female, height = Fin 165, weight = Fin 60, trainingDays = Fin 3,
       goal = Maintenance, focus = Strength, neck = None, waist = None, hip = None \<rparr>"

definition example_male_invalid :: UserData where
  "example_male_invalid =
     \<lparr> age = Fin 30, gender = Male, height = Fin 175, weight = Fin 75, trainingDays = Fin 3,
       goal = Maintenance, focus = Strength,
       neck = Some (Fin 40), waist = Some (Fin 30), hip = None \<rparr>"

definition example_zero_neck :: UserData where
  "example_zero_neck =
     \<lparr> age = Fin 30, gender = Male, height = Fin 175, weight = Fin 75, trainingDays = Fin 3,
       goal = Maintenance, focus = Strength,
       neck = Some (Fin 0), waist = Some (Fin 85), hip = None \<rparr>"

definition example_tdee_2500 :: UserData where
  "example_tdee_2500 =
     \<lparr> age = Fin 30, gender = Male, height = Fin 181, weight = Fin 80, trainingDays = Fin 1,
       goal = Bulking, focus = Strength, neck = None, waist = None, hip = None \<rparr>"

section \<open>Auxiliary facts\<close>

lemmas number_ops = plus_number_def minus_number_def times_number_def divide_number_def

lemmas calc_defs = calculateFitnessMetrics_def calc_bmi_def calc_bmr_def calc_pal_def
  calc_bodyFat_def useNavy_def navyIsValid_def Let_def

lemmas eval_defs = calc_defs number_ops Math_min_def Math_max_def le_def gt_def

lemmas examples = example_male_navy_def example_female_navy_def example_female_plain_def
  example_male_invalid_def example_zero_neck_def example_tdee_2500_def

text \<open>On finite values the arithmetic of the model is the arithmetic of the reals.\<close>

lemma Fin_arith:
  "Fin x + Fin y = Fin (x + y)"
  "Fin x - Fin y = Fin (x - y)"
  "Fin x * Fin y = Fin (x * y)"
  "y \<noteq> 0 \<Longrightarrow> Fin x / Fin y = Fin (x / y)"
  by (simp_all add: number_ops)

lemma clamp_Fin:
  "x \<noteq> NaN \<Longrightarrow> \<exists>c. Math_max (Fin 5) (Math_min (Fin 50) x) = Fin c \<and> 5 \<le> c \<and> c \<le> 50"
  by (cases x) (auto simp: Math_min_def Math_max_def)

lemma clamp_NaN: "Math_max (Fin 5) (Math_min (Fin 50) NaN) = NaN"
  by (simp add: Math_min_def Math_max_def)

lemma toFixed1_range:
  assumes "5 \<le> c" "c \<le> 50"
  shows "\<exists>r. parseFloat_toFixed1 (Fin c) = Fin r \<and> 5 \<le> r \<and> r \<le> 50"
proof -
  have lo: "50 \<le> \<lfloor>c * 10 + 1 / 2\<rfloor>" using assms by (simp add: le_floor_iff)
  have hi: "\<lfloor>c * 10 + 1 / 2\<rfloor> \<le> 500" using assms by (simp add: floor_le_iff)
  have "\<bar>c\<bar> = c" "sgn c = 1" "\<not> 10 ^ 21 \<le> \<bar>c\<bar>" using assms by auto
  then have "parseFloat_toFixed1 (Fin c) = Fin (of_int \<lfloor>c * 10 + 1 / 2\<rfloor> / 10)" by simp
  moreover have "5 \<le> (of_int \<lfloor>c * 10 + 1 / 2\<rfloor> :: real) / 10" using lo by simp
  moreover have "(of_int \<lfloor>c * 10 + 1 / 2\<rfloor> :: real) / 10 \<le> 50" using hi by simp
  ultimately show ?thesis by blast
qed

lemma clamped_in_range:
  assumes "x \<noteq> NaN"
  shows "le (Fin 5) (parseFloat_toFixed1 (Math_max (Fin 5) (Math_min (Fin 50) x))) \<and>
         le (parseFloat_toFixed1 (Math_max (Fin 5) (Math_min (Fin 50) x))) (Fin 50)"
proof -
  from clamp_Fin [OF assms] obtain c
    where c: "Math_max (Fin 5) (Math_min (Fin 50) x) = Fin c" "5 \<le> c" "c \<le> 50" by blast
  from toFixed1_range [OF c(2,3)] obtain r
    where r: "parseFloat_toFixed1 (Fin c) = Fin r" "5 \<le> r" "r \<le> 50" by blast
  show ?thesis using c(1) r by (auto simp: le_def)
qed

lemma toFixed1_Fin: "\<exists>r. parseFloat_toFixed1 (Fin x) = Fin r"
  by (metis parseFloat_toFixed1.simps(1))

text \<open>When \<open>n < v\<close> holds, the difference \<open>v - n\<close> is a positive value or infinite.\<close>

lemma gap_cases:
  assumes "lt n v"
  shows "(\<exists>p. v - n = Fin p \<and> 0 < p) \<or> v - n = PInf"
  using assms by (cases v; cases n) (auto simp: number_ops)

lemma navy_formula_not_NaN:
  assumes "(\<exists>p. g = Fin p \<and> 0 < p) \<or> g = PInf" "0 < h" "0 < c2"
  shows "Fin 495 / (Fin c1 - Fin c2 * Math_log10 g + Fin c3 * Math_log10 (Fin h)) - Fin 450
           \<noteq> NaN"
  using assms by (auto simp: number_ops split: if_splits)

lemma bmi_Fin:
  assumes "height d = Fin h" "weight d = Fin w" "h \<noteq> 0"
  shows "calc_bmi d = parseFloat_toFixed1 (Fin (w / (h / 100 * (h / 100))))"
  using assms by (simp add: calc_bmi_def Let_def number_ops del: parseFloat_toFixed1.simps)

lemma bodyFat_not_NaN:
  assumes "age d = Fin a" "height d = Fin h" "weight d = Fin w" "0 < h"
  shows "fst (calc_bodyFat d) \<noteq> NaN"
proof (cases "useNavy d \<and> navyIsValid d")
  case True
  show ?thesis
  proof (cases "gender d")
    case Male
    with True have "lt (toNumber (neck d)) (toNumber (waist d))"
      by (auto simp: navyIsValid_def gt_def split: if_splits)
    from gap_cases [OF this] show ?thesis
      using True Male assms navy_formula_not_NaN [of _ h "19077 / 10 ^ 5"]
      by (simp add: calc_bodyFat_def)
  next
    case Female
    with True have "lt (toNumber (neck d)) (toNumber (waist d) + toNumber (hip d))"
      by (auto simp: navyIsValid_def gt_def split: if_splits)
    from gap_cases [OF this] show ?thesis
      using True Female assms navy_formula_not_NaN [of _ h "35004 / 10 ^ 5"]
      by (simp add: calc_bodyFat_def)
  qed
next
  case False
  from bmi_Fin [of d h w] assms toFixed1_Fin obtain r where r: "calc_bmi d = Fin r"
    by (metis less_irrefl)
  from False have "fst (calc_bodyFat d) =
      (Fin 1.20 * calc_bmi d) + (Fin 0.23 * age d)
        - (Fin 10.8 * (if gender d = Male then Fin 1 else Fin 0)) - Fin 5.4"
    by (auto simp: calc_bodyFat_def Let_def)
  then show ?thesis
    using r assms(1) by (simp add: number_ops)
qed




lemma normalizeMethodKey_range:
  "fst (normalizeMethodKey method) = ''navy'' \<or>
   fst (normalizeMethodKey method) = ''deurenberg''"
  by (simp add: normalizeMethodKey_def Let_def split: option.split)

lemma normalizeMethodKey_navy: "normalizeMethodKey (Some ''navy'') = (''navy'', [])"
  by code_simp

lemma normalizeMethodKey_deurenberg:
  "normalizeMethodKey (Some ''deurenberg'') = (''deurenberg'', [])"
  by code_simp

section \<open>Body-fat percentage\<close>

text \<open>
  Claim C1, amended.  For every profile whose age, height and weight are finite numbers
  with a positive height and a positive weight, whatever the circumference fields hold,
  the field \<open>bodyFatPercentage\<close> of the result lies in the closed interval from 5 to 50,
  whichever formula was used.  (A positive weight is not needed in this model, where a
  positive height has a positive square; it is asked for because in binary64 the square
  of a tiny height is zero and a zero weight then gives \<open>0 / 0\<close>.)
\<close>

theorem bodyFatPercentage_in_range:
  assumes "age d = Fin a" "height d = Fin h" "weight d = Fin w" "0 < h" "0 < w"
  shows "le (Fin 5) (bodyFatPercentage (calculateFitnessMetrics d)) \<and>
         le (bodyFatPercentage (calculateFitnessMetrics d)) (Fin 50)"
  using clamped_in_range [OF bodyFat_not_NaN [OF assms(1-4)]]
  by (simp add: calculateFitnessMetrics_def Let_def)

text \<open>The amended statement at the first example profile of the spec.\<close>

theorem bodyFatPercentage_in_range_witness:
  "age example_male_navy = Fin 30 \<and> height example_male_navy = Fin 175 \<and>
   weight example_male_navy = Fin 75 \<and> (0::real) < 175 \<and> (0::real) < 75 \<and>
   le (Fin 5) (bodyFatPercentage (calculateFitnessMetrics example_male_navy)) \<and>
   le (bodyFatPercentage (calculateFitnessMetrics example_male_navy)) (Fin 50)"
  using bodyFatPercentage_in_range [of example_male_navy 30 175 75]
  by (simp add: example_male_navy_def)

text \<open>
  Claim C1 as stated fails: with height 0 and weight 0 the BMI is \<open>0 / 0\<close>, the Deurenberg
  formula yields NaN, \<open>Math.min\<close> and \<open>Math.max\<close> pass NaN on, and the field is NaN,
  which is neither at least 5 nor at most 50.
\<close>

theorem bodyFatPercentage_NaN_counterexample:
  "\<not> (le (Fin 5) (bodyFatPercentage (calculateFitnessMetrics
          \<lparr> age = Fin 30, gender = Male, height = Fin 0, weight = Fin 0,
            trainingDays = Fin 3, goal = Maintenance, focus = Strength,
            neck = None, waist = None, hip = None \<rparr>)) \<and>
       le (bodyFatPercentage (calculateFitnessMetrics
          \<lparr> age = Fin 30, gender = Male, height = Fin 0, weight = Fin 0,
            trainingDays = Fin 3, goal = Maintenance, focus = Strength,
            neck = None, waist = None, hip = None \<rparr>)) (Fin 50))"
  by (simp add: eval_defs)

section \<open>Selection of the body-fat method\<close>




section \<open>The method normalizer\<close>

text \<open>
  Claim C4.  \<open>normalizeMethodKey\<close> returns a result on every input, absent input
  included, and the result is \<open>navy\<close> or \<open>deurenberg\<close>.  It is \<open>navy\<close> exactly when the
  input, trimmed and lower-cased, is one of the five navy aliases, and then no warning is
  emitted; it is \<open>deurenberg\<close> without a warning for the three deurenberg aliases; for
  every other input, the empty string and absent input included, it is \<open>deurenberg\<close>
  and one warning is emitted.
\<close>

theorem normalizeMethodKey_total:
  "(fst (normalizeMethodKey method) = ''navy'' \<or>
    fst (normalizeMethodKey method) = ''deurenberg'') \<and>
   (fst (normalizeMethodKey (Some m)) = ''navy'' \<longleftrightarrow>
      toLowerCase (trim m) \<in> {''navy'', ''us_navy'', ''us-navy'', ''u.s. navy'', ''usnavy''}) \<and>
   (toLowerCase (trim m) \<in> {''navy'', ''us_navy'', ''us-navy'', ''u.s. navy'', ''usnavy''} \<longrightarrow>
      normalizeMethodKey (Some m) = (''navy'', [])) \<and>
   (toLowerCase (trim m) \<in> {''deurenberg'', ''deurenberg1991'', ''d1991''} \<longrightarrow>
      normalizeMethodKey (Some m) = (''deurenberg'', [])) \<and>
   (toLowerCase (trim m) \<notin> {''navy'', ''us_navy'', ''us-navy'', ''u.s. navy'', ''usnavy'',
          ''deurenberg'', ''deurenberg1991'', ''d1991''} \<longrightarrow>
      normalizeMethodKey (Some m) =
        (''deurenberg'', [if m = [] then EmptyMethod else UnknownMethodKey m])) \<and>
   normalizeMethodKey None = (''deurenberg'', [EmptyMethod]) \<and>
   normalizeMethodKey (Some []) = (''deurenberg'', [EmptyMethod])"
  using normalizeMethodKey_range [of "method"]
  by (auto simp: normalizeMethodKey_def Let_def navyAliases_def deurenbergAliases_def
        trim_def toLowerCase_def)

text \<open>A navy alias with blanks and capitals, a deurenberg alias in capitals, and an
  unknown label.\<close>

theorem normalizeMethodKey_total_witness:
  "toLowerCase (trim ''  US-Navy '') \<in>
     {''navy'', ''us_navy'', ''us-navy'', ''u.s. navy'', ''usnavy''} \<and>
   normalizeMethodKey (Some ''  US-Navy '') = (''navy'', []) \<and>
   toLowerCase (trim ''D1991'') \<in> {''deurenberg'', ''deurenberg1991'', ''d1991''} \<and>
   normalizeMethodKey (Some ''D1991'') = (''deurenberg'', []) \<and>
   toLowerCase (trim ''bogus'') \<notin>
     {''navy'', ''us_navy'', ''us-navy'', ''u.s. navy'', ''usnavy'',
      ''deurenberg'', ''deurenberg1991'', ''d1991''} \<and>
   normalizeMethodKey (Some ''bogus'') = (''deurenberg'', [UnknownMethodKey ''bogus''])"
proof -
  have h1: "toLowerCase (trim ''  US-Navy '') \<in>
      {''navy'', ''us_navy'', ''us-navy'', ''u.s. navy'', ''usnavy''}"
    by code_simp
  have h2: "toLowerCase (trim ''D1991'') \<in> {''deurenberg'', ''deurenberg1991'', ''d1991''}"
    by code_simp
  have h3: "toLowerCase (trim ''bogus'') \<notin>
      {''navy'', ''us_navy'', ''us-navy'', ''u.s. navy'', ''usnavy'',
       ''deurenberg'', ''deurenberg1991'', ''d1991''}"
    by code_simp
  from normalizeMethodKey_total [of _ "''  US-Navy ''"] h1
  have c1: "normalizeMethodKey (Some ''  US-Navy '') = (''navy'', [])" by blast
  from normalizeMethodKey_total [of _ "''D1991''"] h2
  have c2: "normalizeMethodKey (Some ''D1991'') = (''deurenberg'', [])" by blast
  from normalizeMethodKey_total [of _ "''bogus''"] h3
  have c3: "normalizeMethodKey (Some ''bogus'') = (''deurenberg'', [UnknownMethodKey ''bogus''])"
    by simp
  from h1 h2 h3 c1 c2 c3 show ?thesis by blast
qed

text \<open>
  Claim C8.  \<open>normalizeMethodKey\<close> is idempotent: applied to its own result it returns
  that result, both results being aliases of themselves.
\<close>

theorem normalizeMethodKey_idempotent:
  "fst (normalizeMethodKey (Some (fst (normalizeMethodKey x)))) = fst (normalizeMethodKey x)"
  using normalizeMethodKey_range [of x]
  by (auto simp: normalizeMethodKey_navy normalizeMethodKey_deurenberg)

section \<open>Energy expenditure\<close>




text \<open>
  Claim C6.  For every profile the activity multiplier follows the tiers of the weekly
  training-day count: at most 1 gives 1.40, 2 to 3 gives 1.55, 4 to 5 gives 1.70, 6 or
  more gives 1.85; and \<open>tdee\<close> is the product of the rounded BMR and the multiplier,
  rounded to the nearest integer.
\<close>

theorem pal_tiers_tdee:
  "(le (trainingDays d) (Fin 1) \<longrightarrow> calc_pal d = Fin 1.40) \<and>
   (le (Fin 2) (trainingDays d) \<and> le (trainingDays d) (Fin 3) \<longrightarrow> calc_pal d = Fin 1.55) \<and>
   (le (Fin 4) (trainingDays d) \<and> le (trainingDays d) (Fin 5) \<longrightarrow> calc_pal d = Fin 1.70) \<and>
   (le (Fin 6) (trainingDays d) \<longrightarrow> calc_pal d = Fin 1.85) \<and>
   tdee (calculateFitnessMetrics d) =
     Math_round (bmr (calculateFitnessMetrics d) * calc_pal d)"
  by (cases "trainingDays d")
     (auto simp: calculateFitnessMetrics_def Let_def calc_pal_def le_def)

text \<open>One profile in each tier, with training-day counts 1, 3, 4 and 7.\<close>

theorem pal_tiers_tdee_witness:
  "le (trainingDays example_tdee_2500) (Fin 1) \<and> calc_pal example_tdee_2500 = Fin 1.40 \<and>
   tdee (calculateFitnessMetrics example_tdee_2500) = Fin 2500 \<and>
   le (Fin 2) (trainingDays example_male_navy) \<and> le (trainingDays example_male_navy) (Fin 3) \<and>
   calc_pal example_male_navy = Fin 1.55 \<and>
   tdee (calculateFitnessMetrics example_male_navy) = Fin 2633 \<and>
   le (Fin 4) (trainingDays example_female_navy) \<and>
   le (trainingDays example_female_navy) (Fin 5) \<and>
   calc_pal example_female_navy = Fin 1.70 \<and>
   le (Fin 6) (trainingDays (example_male_navy \<lparr> trainingDays := Fin 7 \<rparr>)) \<and>
   calc_pal (example_male_navy \<lparr> trainingDays := Fin 7 \<rparr>) = Fin 1.85 \<and>
   tdee (calculateFitnessMetrics (example_male_navy \<lparr> trainingDays := Fin 7 \<rparr>)) = Fin 3143"
proof -
  have h: "le (trainingDays example_tdee_2500) (Fin 1)"
    "le (Fin 2) (trainingDays example_male_navy)" "le (trainingDays example_male_navy) (Fin 3)"
    "le (Fin 4) (trainingDays example_female_navy)"
    "le (trainingDays example_female_navy) (Fin 5)"
    "le (Fin 6) (trainingDays (example_male_navy \<lparr> trainingDays := Fin 7 \<rparr>))"
    by (simp_all add: examples le_def)
  have b: "bmr (calculateFitnessMetrics example_tdee_2500) = Fin 1786"
    "bmr (calculateFitnessMetrics example_male_navy) = Fin 1699"
    "bmr (calculateFitnessMetrics (example_male_navy \<lparr> trainingDays := Fin 7 \<rparr>)) = Fin 1699"
    by (simp_all add: examples calculateFitnessMetrics_def Let_def calc_bmr_def number_ops)
  from pal_tiers_tdee [of example_tdee_2500] pal_tiers_tdee [of example_male_navy]
    pal_tiers_tdee [of example_female_navy]
    pal_tiers_tdee [of "example_male_navy \<lparr> trainingDays := Fin 7 \<rparr>"] h b
  show ?thesis by (simp add: number_ops)
qed

text \<open>
  Claim C7.  For every profile the target calories are: maintenance equal to the TDEE,
  cutting equal to the TDEE less 15 percent of it rounded, bulking equal to the TDEE plus
  10 percent of it rounded; for a TDEE of 2500, cutting is 2125 and bulking is 2750.
\<close>

theorem targetCalories_of_tdee:
  "maintenance (targetCalories (calculateFitnessMetrics d)) = tdee (calculateFitnessMetrics d) \<and>
   cutting (targetCalories (calculateFitnessMetrics d)) =
     tdee (calculateFitnessMetrics d)
       - Math_round (tdee (calculateFitnessMetrics d) * Fin 0.15) \<and>
   bulking (targetCalories (calculateFitnessMetrics d)) =
     tdee (calculateFitnessMetrics d)
       + Math_round (tdee (calculateFitnessMetrics d) * Fin 0.10) \<and>
   (tdee (calculateFitnessMetrics d) = Fin 2500 \<longrightarrow>
      cutting (targetCalories (calculateFitnessMetrics d)) = Fin 2125 \<and>
      bulking (targetCalories (calculateFitnessMetrics d)) = Fin 2750)"
  by (simp add: calculateFitnessMetrics_def Let_def number_ops)

text \<open>A profile whose TDEE is 2500: BMR 1786 and multiplier 1.40 give 2500.4.\<close>

theorem targetCalories_of_tdee_witness:
  "tdee (calculateFitnessMetrics example_tdee_2500) = Fin 2500 \<and>
   maintenance (targetCalories (calculateFitnessMetrics example_tdee_2500)) = Fin 2500 \<and>
   cutting (targetCalories (calculateFitnessMetrics example_tdee_2500)) = Fin 2125 \<and>
   bulking (targetCalories (calculateFitnessMetrics example_tdee_2500)) = Fin 2750"
proof -
  have t: "tdee (calculateFitnessMetrics example_tdee_2500) = Fin 2500"
    by (simp add: example_tdee_2500_def eval_defs)
  from targetCalories_of_tdee [of example_tdee_2500] t show ?thesis
    by (simp add: number_ops)
qed

section \<open>Fields the result does not depend on\<close>

text \<open>
  Claim C9.  The result does not depend on the goal and focus fields: two profiles that
  agree on age, gender, height, weight, trainingDays, neck, waist and hip have equal
  results.
\<close>

theorem goal_focus_independence:
  assumes "age d1 = age d2" "gender d1 = gender d2" "height d1 = height d2"
    "weight d1 = weight d2" "trainingDays d1 = trainingDays d2"
    "neck d1 = neck d2" "waist d1 = waist d2" "hip d1 = hip d2"
  shows "calculateFitnessMetrics d1 = calculateFitnessMetrics d2"
  using assms by (simp add: calc_defs)

text \<open>The first example profile, and the same with another goal and another focus.\<close>

theorem goal_focus_independence_witness:
  "goal example_male_navy \<noteq>
     goal (example_male_navy \<lparr> goal := Cutting, focus := Hypertrophy \<rparr>) \<and>
   focus example_male_navy \<noteq>
     focus (example_male_navy \<lparr> goal := Cutting, focus := Hypertrophy \<rparr>) \<and>
   calculateFitnessMetrics example_male_navy =
   calculateFitnessMetrics (example_male_navy \<lparr> goal := Cutting, focus := Hypertrophy \<rparr>)"
  using goal_focus_independence [of example_male_navy
      "example_male_navy \<lparr> goal := Cutting, focus := Hypertrophy \<rparr>"]
  by (simp add: example_male_navy_def)

section \<open>Zero measurements\<close>



end
